theory Spec2Isabelle
  imports Main "HOL-Library.Word"
begin

unbundle bit_operations_syntax

section \<open>C strings and formatted text\<close>

text \<open>
  A \<open>char *\<close> is a \<^typ>\<open>string\<close>: the bytes before the terminating NUL. A byte array
  that is read as a C string (\<open>%s\<close>, the URL option of the transport, the input of the
  JSON parser) ends at its first NUL byte.
\<close>

definition c_str :: "string \<Rightarrow> string" where
  "c_str bs = takeWhile (\<lambda>c. c \<noteq> CHR 0x00) bs"

text \<open>The C type \<open>size_t\<close> on a 64-bit platform; \<open>size * nitems\<close> wraps around.\<close>

type_synonym size_t = "64 word"

text \<open>Decimal digits of a natural number, most significant first.\<close>

fun dec_of_nat :: "nat \<Rightarrow> string" where
  "dec_of_nat n =
     (if n < 10 then [char_of (48 + n)]
      else dec_of_nat (n div 10) @ [char_of (48 + n mod 10)])"

declare dec_of_nat.simps [simp del]

text \<open>The conversion \<open>%d\<close> of printf for an \<open>int\<close>.\<close>

definition format_d :: "32 word \<Rightarrow> string" where
  "format_d i =
     (if sint i < 0 then CHR ''-'' # dec_of_nat (nat (- sint i))
      else dec_of_nat (nat (sint i)))"

text \<open>
  The variadic arguments of a printf-style call. The conversions the repository uses are
  \<open>%s\<close> and \<open>%d\<close>, and \<open>%%\<close> for a percent sign. A conversion whose argument is
  missing or has the other type is undefined behaviour in C; the model prints nothing for it.
\<close>

datatype fmt_arg = S string | D "32 word"

fun render :: "char \<Rightarrow> fmt_arg \<Rightarrow> string" where
  "render c (S s) = (if c = CHR ''s'' then s else [])"
| "render c (D i) = (if c = CHR ''d'' then format_d i else [])"

fun vformat :: "string \<Rightarrow> fmt_arg list \<Rightarrow> string" where
  "vformat [] as = []"
| "vformat [c] as = [c]"
| "vformat (c # d # fs) as =
     (if c \<noteq> CHR ''%'' then c # vformat (d # fs) as
      else if d = CHR ''%'' then CHR ''%'' # vformat fs as
      else (case as of
              [] \<Rightarrow> vformat fs []
            | a # as' \<Rightarrow> render d a @ vformat fs as'))"

text \<open>\<open>snprintf(dst, sz, frmt, ...)\<close>: at most \<open>sz - 1\<close> bytes and the terminator.\<close>

definition snprintf :: "nat \<Rightarrow> string \<Rightarrow> fmt_arg list \<Rightarrow> string" where
  "snprintf sz frmt as = take (sz - 1) (vformat frmt as)"

section \<open>The growable buffer\<close>

text \<open>
  Modelled from the spec: the growable byte buffer (\<open>buffer_open\<close>, \<open>buffer_close\<close>,
  \<open>buffer_clear\<close>, \<open>buffer_append\<close>, \<open>buffer_append_format\<close>,
  \<open>buffer_append_vformat\<close>) is used by \<open>request.c\<close> and defined elsewhere in the
  repository. The spec's contract: open and close acquire and release the backing storage;
  clear resets the length; append raw bytes and append formatted text fail on allocation
  failure; the current contents and length are exposed for reading.

  \<open>blob\<close> is the current contents and the field \<open>size\<close> of the C struct is its length.
  The allocator is a parameter \<open>alloc\<close>: \<open>alloc n\<close> tells whether the storage can hold
  \<open>n\<close> bytes. A failed append leaves the buffer as it was and returns a non-zero code.
\<close>

record buffer_t =
  blob :: string

definition buffer_size :: "buffer_t \<Rightarrow> nat" where
  "buffer_size b = length (blob b)"


definition buffer_clear :: "buffer_t \<Rightarrow> buffer_t" where
  "buffer_clear b = b\<lparr>blob := []\<rparr>"

definition buffer_append :: "(nat \<Rightarrow> bool) \<Rightarrow> buffer_t \<Rightarrow> string \<Rightarrow> size_t \<Rightarrow> int \<times> buffer_t" where
  "buffer_append alloc b ptr n =
     (if alloc (length (blob b) + unat n)
      then (0, b\<lparr>blob := blob b @ take (unat n) ptr\<rparr>)
      else (1, b))"

definition buffer_append_vformat :: "(nat \<Rightarrow> bool) \<Rightarrow> buffer_t \<Rightarrow> string \<Rightarrow> fmt_arg list \<Rightarrow> int \<times> buffer_t" where
  "buffer_append_vformat alloc b frmt ap =
     (let text = vformat frmt ap
      in if alloc (length (blob b) + length text)
         then (0, b\<lparr>blob := blob b @ text\<rparr>)
         else (1, b))"


section \<open>Requests\<close>



type_synonym 'u webhdfs_upload_t = "size_t \<Rightarrow> 'u option \<Rightarrow> string \<times> 'u option"

record 'u webhdfs_req_t =
  buffer :: buffer_t
  rcode :: int
  upload :: "'u webhdfs_upload_t option"
  upload_data :: "'u option"

datatype webhdfs_req_type = WEBHDFS_REQ_GET | WEBHDFS_REQ_PUT | WEBHDFS_REQ_POST | WEBHDFS_REQ_DELETE

subsection \<open>The streaming callbacks\<close>

text \<open>
  \<open>__webhdfs_req_write(ptr, size, nitems, stream)\<close>: \<open>ptr\<close> is the memory the transport
  hands over, of which \<open>size * nitems\<close> bytes are appended.
\<close>

definition webhdfs_req_write ::
  "(nat \<Rightarrow> bool) \<Rightarrow> string \<Rightarrow> size_t \<Rightarrow> size_t \<Rightarrow> 'u webhdfs_req_t \<Rightarrow> size_t \<times> 'u webhdfs_req_t" where
  "webhdfs_req_write alloc ptr sz nitems req =
     (let n = sz * nitems;
          (r, b) = buffer_append alloc (buffer req) ptr n
      in if r \<noteq> 0 then (0, req) else (n, req\<lparr>buffer := b\<rparr>))"

text \<open>\<open>__webhdfs_req_read(ptr, size, nitems, stream)\<close>: the bytes written to \<open>ptr\<close>.\<close>

definition webhdfs_req_read ::
  "size_t \<Rightarrow> size_t \<Rightarrow> 'u webhdfs_req_t \<Rightarrow> string \<times> 'u webhdfs_req_t" where
  "webhdfs_req_read sz nitems req =
     (case upload req of
        None \<Rightarrow> ([], req)
      | Some f \<Rightarrow>
          (let (bs, ud) = f (sz * nitems) (upload_data req)
           in (bs, req\<lparr>upload_data := ud\<rparr>)))"

subsection \<open>Building the URL\<close>


definition webhdfs_req_set_args ::
  "(nat \<Rightarrow> bool) \<Rightarrow> 'u webhdfs_req_t \<Rightarrow> string \<Rightarrow> fmt_arg list \<Rightarrow> int \<times> 'u webhdfs_req_t" where
  "webhdfs_req_set_args alloc req frmt ap =
     (let r = 0;
          (_, b) = buffer_append_vformat alloc (buffer req) frmt ap
      in (r, req\<lparr>buffer := b\<rparr>))"

definition webhdfs_req_set_upload ::
  "'u webhdfs_req_t \<Rightarrow> 'u webhdfs_upload_t option \<Rightarrow> 'u option \<Rightarrow> int \<times> 'u webhdfs_req_t" where
  "webhdfs_req_set_upload req func user_data =
     (0, req\<lparr>upload_data := user_data, upload := func\<rparr>)"

section \<open>The transport engine\<close>

text \<open>
  The HTTP engine (libcurl) is outside the repository. What \<open>request.c\<close> relies on is
  kept: a handle holds the options set on it; a transfer runs the engine, which may hand
  received bytes to the registered write function, ask the registered read function for
  body bytes, and react to what they return; it ends with a result code, and the handle
  then answers for the redirect URL and the response code.

  An engine is a tree of such steps, so it is any terminating behaviour, also one that
  depends on the callbacks' answers. The engine can only call a function that is
  registered on the handle: with none registered its own default (standard input or
  output) is used, which does not touch the request.
\<close>

record curl_result =
  code :: nat
  redirect_url :: "string option"
  response_code :: int

datatype engine =
    Done curl_result
  | Deliver string size_t size_t "size_t \<Rightarrow> engine"
  | Pull size_t size_t "string \<Rightarrow> engine"

text \<open>
  The options \<open>request.c\<close> sets on a handle. \<open>opt_writefunction\<close> and
  \<open>opt_readfunction\<close> tell whether \<open>__webhdfs_req_write\<close> and
  \<open>__webhdfs_req_read\<close> are registered (their data pointer is the request).
  \<open>performed\<close> counts the transfers run on the handle.
\<close>

record curl_handle =
  opt_url :: "string option"
  opt_verbose :: bool
  opt_followlocation :: bool
  opt_writefunction :: bool
  opt_readfunction :: bool
  opt_httpget :: bool
  opt_customrequest :: "string option"
  opt_httpheader :: "string list"
  opt_put :: bool
  opt_post :: bool
  performed :: nat

definition curl_easy_init :: curl_handle where
  "curl_easy_init =
     \<lparr>opt_url = None, opt_verbose = False, opt_followlocation = False,
      opt_writefunction = False, opt_readfunction = False, opt_httpget = False,
      opt_customrequest = None, opt_httpheader = [], opt_put = False, opt_post = False,
      performed = 0\<rparr>"

text \<open>
  What happens during a call, in order. \<open>Ev_perform h\<close>: a transfer starts on the
  handle, whose options and number (\<open>performed h\<close>) are as in \<open>h\<close>; \<open>Ev_done k c\<close>:
  transfer number \<open>k\<close> returns code \<open>c\<close>;
  \<open>Ev_write k bs r\<close>: during transfer \<open>k\<close> the write function is called with the bytes
  \<open>bs\<close> and returns \<open>r\<close>; \<open>Ev_read k u n\<close>: during transfer \<open>k\<close>, towards URL \<open>u\<close>,
  the read function is called for at most \<open>n\<close> bytes; \<open>Ev_redirect u\<close>: the redirect URL
  is read from the handle; \<open>Ev_stderr s\<close>: \<open>s\<close> is printed on standard error.
\<close>

datatype event =
    Ev_perform curl_handle
  | Ev_done nat nat
  | Ev_write nat string size_t
  | Ev_read nat "string option" size_t
  | Ev_redirect "string option"
  | Ev_stderr string

primrec run_engine ::
  "(nat \<Rightarrow> bool) \<Rightarrow> curl_handle \<Rightarrow> engine \<Rightarrow> 'u webhdfs_req_t \<Rightarrow> event list
     \<Rightarrow> curl_result \<times> 'u webhdfs_req_t \<times> event list" where
  "run_engine alloc h (Done res) = (\<lambda>req tr. (res, req, tr))"
| "run_engine alloc h (Deliver ptr sz nitems k) = (\<lambda>req tr.
     if opt_writefunction h
     then (let (r, req') = webhdfs_req_write alloc ptr sz nitems req
           in run_engine alloc h (k r) req'
                (tr @ [Ev_write (performed h) (take (unat (sz * nitems)) ptr) r]))
     else run_engine alloc h (k (sz * nitems)) req tr)"
| "run_engine alloc h (Pull sz nitems k) = (\<lambda>req tr.
     if opt_readfunction h
     then (let (bs, req') = webhdfs_req_read sz nitems req
           in run_engine alloc h (k bs) req'
                (tr @ [Ev_read (performed h) (opt_url h) (sz * nitems)]))
     else run_engine alloc h (k []) req tr)"

text \<open>
  The environment of a call: whether the engine can create a handle, the engine's
  behaviour for each transfer of a handle (given the handle's options), the engine's error
  descriptions, whether \<open>malloc(512)\<close> succeeds, and the buffer's allocator.
\<close>

record env =
  curl_init_ok :: bool
  engine_of :: "curl_handle \<Rightarrow> engine"
  curl_easy_strerror :: "nat \<Rightarrow> string"
  malloc_ok :: bool
  alloc :: "nat \<Rightarrow> bool"

definition curl_easy_perform ::
  "env \<Rightarrow> curl_handle \<Rightarrow> 'u webhdfs_req_t \<Rightarrow> event list
     \<Rightarrow> curl_result \<times> curl_handle \<times> 'u webhdfs_req_t \<times> event list" where
  "curl_easy_perform ev h req tr =
     (let h' = h\<lparr>performed := Suc (performed h)\<rparr>;
          (res, req', tr') =
             run_engine (alloc ev) h' (engine_of ev h') req
               (tr @ [Ev_perform h'])
      in (res, h', req', tr' @ [Ev_done (performed h') (code res)]))"

section \<open>Executing a request\<close>

text \<open>
  \<open>webhdfs_req_exec(req, type, error)\<close> returns its result, the request as it leaves
  it, the value of \<open>*error\<close> (\<open>None\<close> is \<open>NULL\<close>) and the events of the call. The
  debug log lines are left out. Reading \<open>req->buffer.blob\<close> as a C string gives the
  buffer's current contents up to the first NUL.
\<close>

definition set_method :: "curl_handle \<Rightarrow> webhdfs_req_type \<Rightarrow> curl_handle" where
  "set_method h type =
     (case type of
        WEBHDFS_REQ_GET \<Rightarrow> h\<lparr>opt_httpget := True\<rparr>
      | WEBHDFS_REQ_PUT \<Rightarrow> h\<lparr>opt_customrequest := Some ''PUT''\<rparr>
      | WEBHDFS_REQ_POST \<Rightarrow> h\<lparr>opt_customrequest := Some ''POST''\<rparr>
      | WEBHDFS_REQ_DELETE \<Rightarrow> h\<lparr>opt_customrequest := Some ''DELETE''\<rparr>)"

definition set_body_mode :: "curl_handle \<Rightarrow> webhdfs_req_type \<Rightarrow> curl_handle" where
  "set_body_mode h type =
     (case type of
        WEBHDFS_REQ_PUT \<Rightarrow> h\<lparr>opt_put := True\<rparr>
      | WEBHDFS_REQ_POST \<Rightarrow> h\<lparr>opt_post := True\<rparr>
      | _ \<Rightarrow> h)"

text \<open>Lines 121 to 144: the options set on the fresh handle before any transfer.\<close>

definition exec_configure :: "'u webhdfs_req_t \<Rightarrow> webhdfs_req_type \<Rightarrow> curl_handle" where
  "exec_configure req type =
     (let h0 = curl_easy_init\<lparr>opt_url := Some (c_str (blob (buffer req)))\<rparr>;
          h1 = h0\<lparr>opt_verbose := False, opt_followlocation := (upload req = None),
                  opt_writefunction := True\<rparr>
      in set_method h1 type)"

text \<open>Lines 147 to 172: the first step of an upload.\<close>

definition exec_upload_step ::
  "env \<Rightarrow> curl_handle \<Rightarrow> 'u webhdfs_req_t \<Rightarrow> webhdfs_req_type
     \<Rightarrow> curl_handle \<times> 'u webhdfs_req_t \<times> event list" where
  "exec_upload_step ev h req type =
     (let (res, h1, req1, tr) = curl_easy_perform ev h req [];
          tr1 = (if code res \<noteq> 0
                 then tr @ [Ev_stderr (vformat (''%s'' @ [CHR 0x0A])
                                         [S (curl_easy_strerror ev (code res))])]
                 else tr);
          url = redirect_url res;
          tr2 = tr1 @ [Ev_redirect url];
          h2 = h1\<lparr>opt_url := url\<rparr>;
          h3 = h2\<lparr>opt_httpheader := [''Transfer-Encoding: chunked''],
                  opt_readfunction := True\<rparr>
      in (set_body_mode h3 type, req1, tr2))"

definition webhdfs_req_exec ::
  "env \<Rightarrow> 'u webhdfs_req_t \<Rightarrow> webhdfs_req_type \<Rightarrow> string option
     \<Rightarrow> int \<times> 'u webhdfs_req_t \<times> string option \<times> event list" where
  "webhdfs_req_exec ev req type error =
     (if \<not> curl_init_ok ev then (1, req, error, [])
      else
        (let h = exec_configure req type;
             req1 = req\<lparr>buffer := buffer_clear (buffer req)\<rparr>;
             (h', req2, tr) =
                (if upload req1 \<noteq> None then exec_upload_step ev h req1 type
                 else (h, req1, []));
             req3 = req2\<lparr>buffer := buffer_clear (buffer req2)\<rparr>;
             (res, h'', req4, tr') = curl_easy_perform ev h' req3 tr;
             error' =
                (if code res \<noteq> 0
                 then (if malloc_ok ev
                       then Some (snprintf 512 ''%s (url: %s)''
                                    [S (curl_easy_strerror ev (code res)),
                                     S (c_str (blob (buffer req4)))])
                       else None)
                 else error);
             req5 = req4\<lparr>rcode := response_code res\<rparr>
         in (if code res \<noteq> 0 then 1 else 0, req5, error', tr')))"

section \<open>Decoding the response\<close>

text \<open>
  The JSON parser (yajl) is outside the repository: \<open>yajl_tree_parse input n\<close> gives the
  tree, or \<open>None\<close> and the error text it wrote into the \<open>n\<close>-byte error buffer.
  \<open>webhdfs_req_json_response\<close> returns the tree and the lines printed on standard error.
\<close>

definition webhdfs_req_json_response ::
  "(string \<Rightarrow> nat \<Rightarrow> 'j option \<times> string) \<Rightarrow> 'u webhdfs_req_t \<Rightarrow> 'j option \<times> string list" where
  "webhdfs_req_json_response yajl_tree_parse req =
     (if buffer_size (buffer req) = 0 then (None, [])
      else
        (let (node, err) = yajl_tree_parse (c_str (blob (buffer req))) 1024
         in (case node of
               None \<Rightarrow> (None, [vformat (''response-parse: %s'' @ [CHR 0x0A]) [S err]])
             | Some v \<Rightarrow> (Some v, []))))"

section \<open>Reading the events of a call\<close>

text \<open>
  The bytes the write function accepted during transfer \<open>k\<close>: it returns 0 when the
  append fails, and the count it was given otherwise.
\<close>

fun accepted :: "nat \<Rightarrow> event \<Rightarrow> string" where
  "accepted k (Ev_write j bs r) = (if j = k \<and> r \<noteq> 0 then bs else [])"
| "accepted k _ = []"

definition received :: "nat \<Rightarrow> event list \<Rightarrow> string" where
  "received k tr = concat (map (accepted k) tr)"

text \<open>The events the engine itself can cause during a transfer: calls of the two callbacks.\<close>

fun is_callback :: "event \<Rightarrow> bool" where
  "is_callback (Ev_write k bs r) = True"
| "is_callback (Ev_read k u n) = True"
| "is_callback _ = False"

fun is_read :: "event \<Rightarrow> bool" where
  "is_read (Ev_read k u n) = True"
| "is_read _ = False"

section \<open>Scenarios\<close>

text \<open>
  Concrete environments on which the functions are evaluated: a namenode at
  \<open>nn:50070\<close>; an upload whose first transfer is answered by a redirect to the datanode
  \<open>dn1:50075\<close> and whose second transfer asks the producer for the body and answers
  201; a download that breaks off after the bytes \<open><html>\<close>; a parser that accepts
  only \<open>{}\<close>; a response buffer that holds \<open>{}\<close>, a NUL byte and \<open>junk\<close>.
\<close>

definition scenario_strerror :: "nat \<Rightarrow> string" where
  "scenario_strerror c =
     (if c = 2 then ''Failed initialization''
      else if c = 56 then ''Failure when receiving data from the peer''
      else ''Unknown error'')"

definition scenario_ok :: "int \<Rightarrow> curl_result" where
  "scenario_ok rc = \<lparr>code = 0, redirect_url = None, response_code = rc\<rparr>"

definition scenario_upload_engine :: "curl_handle \<Rightarrow> engine" where
  "scenario_upload_engine h =
     (if performed h = 1
      then Deliver ''moved'' 1 5 (\<lambda>r.
             Done \<lparr>code = 0, redirect_url = Some ''http://dn1:50075/webhdfs/v1/f?op=CREATE'',
                   response_code = 307\<rparr>)
      else Pull 1 4 (\<lambda>bs. Pull 1 4 (\<lambda>bs'. Deliver ''ok'' 1 2 (\<lambda>r. Done (scenario_ok 201)))))"

definition scenario_env :: "(curl_handle \<Rightarrow> engine) \<Rightarrow> env" where
  "scenario_env e =
     \<lparr>curl_init_ok = True, engine_of = e, curl_easy_strerror = scenario_strerror,
      malloc_ok = True, alloc = (\<lambda>n. True)\<rparr>"

definition scenario_producer :: "string webhdfs_upload_t" where
  "scenario_producer n ud =
     (case ud of None \<Rightarrow> ([], None) | Some s \<Rightarrow> (take (unat n) s, Some (drop (unat n) s)))"

definition scenario_req :: "string webhdfs_req_t" where
  "scenario_req =
     \<lparr>buffer = \<lparr>blob = ''http://nn:50070/webhdfs/v1/f?op=CREATE''\<rparr>, rcode = 0,
      upload = None, upload_data = None\<rparr>"

definition scenario_put :: "string webhdfs_req_t" where
  "scenario_put = scenario_req\<lparr>upload := Some scenario_producer, upload_data := Some ''data''\<rparr>"

definition scenario_get_engine :: "curl_handle \<Rightarrow> engine" where
  "scenario_get_engine h =
     Deliver ''<html>'' 1 6 (\<lambda>r.
       Done \<lparr>code = 56, redirect_url = None, response_code = 200\<rparr>)"

definition scenario_parse :: "string \<Rightarrow> nat \<Rightarrow> unit option \<times> string" where
  "scenario_parse input n =
     (if input = ''{}'' then (Some (), []) else (None, take (n - 1) ''parse error: invalid token''))"

definition scenario_nul_req :: "string webhdfs_req_t" where
  "scenario_nul_req = scenario_req\<lparr>buffer := \<lparr>blob = ''{}'' @ [CHR 0x00] @ ''junk''\<rparr>\<rparr>"

definition events_of :: "int \<times> 'u webhdfs_req_t \<times> string option \<times> event list \<Rightarrow> event list" where
  "events_of out = snd (snd (snd out))"


definition scenario_h1 :: curl_handle where
  "scenario_h1 =
     \<lparr>opt_url = Some ''http://nn:50070/webhdfs/v1/f?op=CREATE'', opt_verbose = False,
      opt_followlocation = False, opt_writefunction = True, opt_readfunction = False,
      opt_httpget = False, opt_customrequest = Some ''PUT'', opt_httpheader = [],
      opt_put = False, opt_post = False, performed = 1\<rparr>"

definition scenario_h2 :: curl_handle where
  "scenario_h2 =
     \<lparr>opt_url = Some ''http://dn1:50075/webhdfs/v1/f?op=CREATE'', opt_verbose = False,
      opt_followlocation = False, opt_writefunction = True, opt_readfunction = True,
      opt_httpget = False, opt_customrequest = Some ''PUT'',
      opt_httpheader = [''Transfer-Encoding: chunked''],
      opt_put = True, opt_post = False, performed = 2\<rparr>"

section \<open>Formatted text and the buffer\<close>




lemma vformat_response_parse:
  "vformat (''response-parse: %s'' @ [CHR 0x0A]) [S err] = ''response-parse: '' @ err @ [CHR 0x0A]"
  by simp



lemma snprintf_bounded: "length (snprintf 512 frmt as) \<le> 511"
  by (simp add: snprintf_def)

lemma webhdfs_req_set_args_returns_zero: "fst (webhdfs_req_set_args al req frmt ap) = 0"
  by (simp add: webhdfs_req_set_args_def Let_def split: prod.splits)

section \<open>The events of a transfer\<close>

lemma received_append: "received k (xs @ ys) = received k xs @ received k ys"
  by (simp add: received_def)

lemma webhdfs_req_write_blob:
  "webhdfs_req_write al ptr sz nitems req = (r, req') \<Longrightarrow>
     blob (buffer req') = blob (buffer req) @ (if r \<noteq> 0 then take (unat (sz * nitems)) ptr else [])
     \<and> upload req' = upload req"
  by (auto simp: webhdfs_req_write_def buffer_append_def Let_def split: if_splits)

lemma webhdfs_req_read_keeps:
  "webhdfs_req_read sz nitems req = (bs, req') \<Longrightarrow> buffer req' = buffer req \<and> upload req' = upload req"
  by (auto simp: webhdfs_req_read_def Let_def split: option.splits prod.splits)

lemma received_other:
  "\<forall>k bs r. Ev_write k bs r \<in> set new \<longrightarrow> k = j \<Longrightarrow> i \<noteq> j \<Longrightarrow> received i new = []"
proof (induction new)
  case Nil
  then show ?case by (simp add: received_def)
next
  case (Cons x new)
  then have "received i new = []" by auto
  moreover from Cons.prems have "accepted i x = []" by (cases x) auto
  ultimately show ?case by (simp add: received_def)
qed

lemma received_no_write:
  "\<forall>x \<in> set xs. \<not> is_callback x \<Longrightarrow> received i xs = []"
proof (induction xs)
  case Nil
  then show ?case by (simp add: received_def)
next
  case (Cons x xs)
  then have "received i xs = []" by simp
  moreover from Cons.prems have "accepted i x = []" by (cases x) auto
  ultimately show ?case by (simp add: received_def)
qed

lemma run_engine_events:
  "run_engine al h e req tr = (res, req', tr') \<Longrightarrow>
     \<exists>new. tr' = tr @ new
        \<and> blob (buffer req') = blob (buffer req) @ received (performed h) new
        \<and> upload req' = upload req
        \<and> (\<forall>x \<in> set new. is_callback x)
        \<and> (\<forall>k u n. Ev_read k u n \<in> set new \<longrightarrow> opt_readfunction h \<and> k = performed h \<and> u = opt_url h)
        \<and> (\<forall>k bs r. Ev_write k bs r \<in> set new \<longrightarrow> k = performed h)"
proof (induction e arbitrary: req tr)
  case (Done x)
  then show ?case by (auto simp: received_def)
next
  case (Deliver ptr sz nitems k)
  show ?case
  proof (cases "opt_writefunction h")
    case False
    with Deliver.prems have "run_engine al h (k (sz * nitems)) req tr = (res, req', tr')" by simp
    from Deliver.IH [OF _ this] show ?thesis by simp
  next
    case True
    obtain r req1 where w: "webhdfs_req_write al ptr sz nitems req = (r, req1)" by force
    let ?e = "Ev_write (performed h) (take (unat (sz * nitems)) ptr) r"
    from True w Deliver.prems have "run_engine al h (k r) req1 (tr @ [?e]) = (res, req', tr')" by simp
    from Deliver.IH [OF _ this] obtain new where
      n: "tr' = (tr @ [?e]) @ new"
         "blob (buffer req') = blob (buffer req1) @ received (performed h) new"
         "upload req' = upload req1"
         "\<forall>x \<in> set new. is_callback x"
         "\<forall>k u n. Ev_read k u n \<in> set new \<longrightarrow> opt_readfunction h \<and> k = performed h \<and> u = opt_url h"
         "\<forall>k bs r. Ev_write k bs r \<in> set new \<longrightarrow> k = performed h"
      by auto
    from webhdfs_req_write_blob [OF w] n show ?thesis
      by (intro exI [of _ "?e # new"]) (auto simp: received_def)
  qed
next
  case (Pull sz nitems k)
  show ?case
  proof (cases "opt_readfunction h")
    case False
    with Pull.prems have "run_engine al h (k []) req tr = (res, req', tr')" by simp
    from Pull.IH [OF _ this] False show ?thesis by simp
  next
    case True
    obtain bs req1 where w: "webhdfs_req_read sz nitems req = (bs, req1)" by force
    let ?e = "Ev_read (performed h) (opt_url h) (sz * nitems)"
    from True w Pull.prems have "run_engine al h (k bs) req1 (tr @ [?e]) = (res, req', tr')" by simp
    from Pull.IH [OF _ this] obtain new where
      n: "tr' = (tr @ [?e]) @ new"
         "blob (buffer req') = blob (buffer req1) @ received (performed h) new"
         "upload req' = upload req1"
         "\<forall>x \<in> set new. is_callback x"
         "\<forall>k u n. Ev_read k u n \<in> set new \<longrightarrow> opt_readfunction h \<and> k = performed h \<and> u = opt_url h"
         "\<forall>k bs r. Ev_write k bs r \<in> set new \<longrightarrow> k = performed h"
      by auto
    from webhdfs_req_read_keeps [OF w] n True show ?thesis
      by (intro exI [of _ "?e # new"]) (auto simp: received_def)
  qed
qed

lemma curl_easy_perform_events:
  assumes "curl_easy_perform ev h req tr = (res, h', req', tr')"
  shows "h' = h\<lparr>performed := Suc (performed h)\<rparr> \<and>
     (\<exists>new. tr' = tr @ [Ev_perform h'] @ new @ [Ev_done (performed h') (code res)]
        \<and> blob (buffer req') = blob (buffer req) @ received (performed h') new
        \<and> upload req' = upload req
        \<and> (\<forall>x \<in> set new. is_callback x)
        \<and> (\<forall>k u n. Ev_read k u n \<in> set new \<longrightarrow> opt_readfunction h' \<and> k = performed h' \<and> u = opt_url h')
        \<and> (\<forall>k bs r. Ev_write k bs r \<in> set new \<longrightarrow> k = performed h'))"
proof -
  let ?h = "h\<lparr>performed := Suc (performed h)\<rparr>"
  obtain r1 q1 t1 where run: "run_engine (alloc ev) ?h (engine_of ev ?h) req (tr @ [Ev_perform ?h]) = (r1, q1, t1)"
    by (metis prod_cases3)
  with assms have eq: "res = r1" "h' = ?h" "req' = q1" "tr' = t1 @ [Ev_done (performed ?h) (code r1)]"
    by (auto simp: curl_easy_perform_def Let_def)
  from run_engine_events [OF run] obtain new where
      n: "t1 = (tr @ [Ev_perform ?h]) @ new"
         "blob (buffer q1) = blob (buffer req) @ received (performed ?h) new"
         "upload q1 = upload req"
         "\<forall>x \<in> set new. is_callback x"
         "\<forall>k u n. Ev_read k u n \<in> set new \<longrightarrow> opt_readfunction ?h \<and> k = performed ?h \<and> u = opt_url ?h"
         "\<forall>k bs r. Ev_write k bs r \<in> set new \<longrightarrow> k = performed ?h"
    by blast
  show ?thesis
    unfolding eq using n by (intro conjI exI [of _ new]) simp_all
qed

section \<open>The events of a call\<close>

lemma performed_set_method [simp]: "performed (set_method h t) = performed h"
  by (cases t) (simp_all add: set_method_def)

lemma readfunction_set_method [simp]: "opt_readfunction (set_method h t) = opt_readfunction h"
  by (cases t) (simp_all add: set_method_def)

lemma follow_set_method [simp]: "opt_followlocation (set_method h t) = opt_followlocation h"
  by (cases t) (simp_all add: set_method_def)

lemma url_set_method [simp]: "opt_url (set_method h t) = opt_url h"
  by (cases t) (simp_all add: set_method_def)

lemma performed_set_body_mode [simp]: "performed (set_body_mode h t) = performed h"
  by (cases t) (simp_all add: set_body_mode_def)

lemma readfunction_set_body_mode [simp]: "opt_readfunction (set_body_mode h t) = opt_readfunction h"
  by (cases t) (simp_all add: set_body_mode_def)

lemma follow_set_body_mode [simp]: "opt_followlocation (set_body_mode h t) = opt_followlocation h"
  by (cases t) (simp_all add: set_body_mode_def)

lemma url_set_body_mode [simp]: "opt_url (set_body_mode h t) = opt_url h"
  by (cases t) (simp_all add: set_body_mode_def)

lemma exec_configure_simps [simp]:
  "performed (exec_configure req t) = 0"
  "opt_readfunction (exec_configure req t) = False"
  "opt_followlocation (exec_configure req t) = (upload req = None)"
  "opt_url (exec_configure req t) = Some (c_str (blob (buffer req)))"
  by (simp_all add: exec_configure_def curl_easy_init_def Let_def)

lemma exec_upload_step_events:
  assumes "exec_upload_step ev h req t = (h2, req2, tr)"
  shows "\<exists>new c errs.
      tr = [Ev_perform (h\<lparr>performed := Suc (performed h)\<rparr>)] @ new @ [Ev_done (Suc (performed h)) c] @ errs @ [Ev_redirect (opt_url h2)]
    \<and> (\<forall>x \<in> set new. is_callback x)
    \<and> (\<forall>k u n. Ev_read k u n \<in> set new \<longrightarrow> opt_readfunction h)
    \<and> (\<forall>k bs r. Ev_write k bs r \<in> set new \<longrightarrow> k = Suc (performed h))
    \<and> (\<forall>x \<in> set errs. \<exists>s. x = Ev_stderr s)
    \<and> performed h2 = Suc (performed h)
    \<and> opt_followlocation h2 = opt_followlocation h
    \<and> upload req2 = upload req"
proof -
  obtain res h1 q1 t1 where p: "curl_easy_perform ev h req [] = (res, h1, q1, t1)"
    by (metis prod_cases4)
  from curl_easy_perform_events [OF p] obtain new where
     h1: "h1 = h\<lparr>performed := Suc (performed h)\<rparr>" and
     n: "t1 = [Ev_perform h1] @ new @ [Ev_done (performed h1) (code res)]"
        "upload q1 = upload req"
        "\<forall>x \<in> set new. is_callback x"
        "\<forall>k u n. Ev_read k u n \<in> set new \<longrightarrow> opt_readfunction h1 \<and> k = performed h1 \<and> u = opt_url h1"
        "\<forall>k bs r. Ev_write k bs r \<in> set new \<longrightarrow> k = performed h1"
    by auto
  from assms p have
    r: "req2 = q1"
       "h2 = set_body_mode (h1\<lparr>opt_url := redirect_url res, opt_httpheader := [''Transfer-Encoding: chunked''],
                  opt_readfunction := True\<rparr>) t"
    by (auto simp: exec_upload_step_def Let_def)
  have "\<exists>errs. tr = t1 @ errs @ [Ev_redirect (redirect_url res)] \<and> (\<forall>x \<in> set errs. \<exists>s. x = Ev_stderr s)"
  proof (cases "code res = 0")
    case True
    with assms p have "tr = t1 @ [] @ [Ev_redirect (redirect_url res)]"
      by (auto simp: exec_upload_step_def Let_def)
    then show ?thesis by (intro exI [of _ "[]"]) simp
  next
    case False
    let ?e = "Ev_stderr (vformat (''%s'' @ [CHR 0x0A]) [S (curl_easy_strerror ev (code res))])"
    from False assms p have "tr = t1 @ [?e] @ [Ev_redirect (redirect_url res)]"
      by (auto simp: exec_upload_step_def Let_def)
    then show ?thesis by (intro exI [of _ "[?e]"]) simp
  qed
  then obtain errs where
    e: "tr = t1 @ errs @ [Ev_redirect (redirect_url res)]" "\<forall>x \<in> set errs. \<exists>s. x = Ev_stderr s"
    by blast
  show ?thesis
    by (rule exI [of _ new], rule exI [of _ "code res"], rule exI [of _ errs])
       (use n r h1 e in simp)
qed

lemma exec_upload_trace:
  assumes "curl_init_ok ev" and "upload req \<noteq> None"
    and "webhdfs_req_exec ev req t error = (r, req', error', tr)"
  shows "\<exists>new1 c1 errs h2 new2 c2.
      tr = [Ev_perform ((exec_configure req t)\<lparr>performed := 1\<rparr>)] @ new1 @ [Ev_done 1 c1] @ errs
             @ [Ev_redirect (opt_url h2)] @ [Ev_perform h2] @ new2 @ [Ev_done 2 c2]
    \<and> (\<forall>x \<in> set new1. is_callback x \<and> \<not> is_read x)
    \<and> (\<forall>k bs r. Ev_write k bs r \<in> set new1 \<longrightarrow> k = 1)
    \<and> (\<forall>x \<in> set errs. \<exists>s. x = Ev_stderr s)
    \<and> performed h2 = 2 \<and> opt_followlocation h2 = False
    \<and> (\<forall>x \<in> set new2. is_callback x)
    \<and> (\<forall>k u n. Ev_read k u n \<in> set new2 \<longrightarrow> k = 2 \<and> u = opt_url h2)
    \<and> (\<forall>k bs r. Ev_write k bs r \<in> set new2 \<longrightarrow> k = 2)
    \<and> blob (buffer req') = received 2 new2
    \<and> r = (if c2 \<noteq> 0 then 1 else 0)"
proof -
  let ?h = "exec_configure req t"
  let ?req1 = "req\<lparr>buffer := buffer_clear (buffer req)\<rparr>"
  obtain h1 q2 t1 where u: "exec_upload_step ev ?h ?req1 t = (h1, q2, t1)"
    by (metis prod_cases3)
  let ?req3 = "q2\<lparr>buffer := buffer_clear (buffer q2)\<rparr>"
  obtain res h2 q4 t2 where p: "curl_easy_perform ev h1 ?req3 t1 = (res, h2, q4, t2)"
    by (metis prod_cases4)
  from assms u p have out:
    "r = (if code res \<noteq> 0 then 1 else 0)" "buffer req' = buffer q4" "tr = t2"
    by (auto simp: webhdfs_req_exec_def Let_def)
  from exec_upload_step_events [OF u] obtain new1 c1 errs where
    s1: "t1 = [Ev_perform (?h\<lparr>performed := Suc (performed ?h)\<rparr>)] @ new1
               @ [Ev_done (Suc (performed ?h)) c1] @ errs @ [Ev_redirect (opt_url h1)]"
        "\<forall>x \<in> set new1. is_callback x"
        "\<forall>k u n. Ev_read k u n \<in> set new1 \<longrightarrow> opt_readfunction ?h"
        "\<forall>k bs r. Ev_write k bs r \<in> set new1 \<longrightarrow> k = Suc (performed ?h)"
        "\<forall>x \<in> set errs. \<exists>s. x = Ev_stderr s"
        "performed h1 = Suc (performed ?h)"
        "opt_followlocation h1 = opt_followlocation ?h"
    by blast
  from curl_easy_perform_events [OF p] obtain new2 where
    s2: "h2 = h1\<lparr>performed := Suc (performed h1)\<rparr>"
        "t2 = t1 @ [Ev_perform h2] @ new2 @ [Ev_done (performed h2) (code res)]"
        "blob (buffer q4) = blob (buffer ?req3) @ received (performed h2) new2"
        "\<forall>x \<in> set new2. is_callback x"
        "\<forall>k u n. Ev_read k u n \<in> set new2 \<longrightarrow> opt_readfunction h2 \<and> k = performed h2 \<and> u = opt_url h2"
        "\<forall>k bs r. Ev_write k bs r \<in> set new2 \<longrightarrow> k = performed h2"
    by blast
  have nr: "\<forall>x \<in> set new1. is_callback x \<and> \<not> is_read x"
  proof
    fix x assume x: "x \<in> set new1"
    with s1(3) have "\<not> is_read x" by (cases x) auto
    with s1(2) x show "is_callback x \<and> \<not> is_read x" by simp
  qed
  have h2: "performed h2 = 2" "opt_url h2 = opt_url h1" "opt_followlocation h2 = False"
    using s1(6,7) s2(1) assms(2) by simp_all
  have b: "blob (buffer req') = received 2 new2"
    using out(2) s2(3) h2(1) by (simp add: buffer_clear_def)
  show ?thesis
    by (rule exI [of _ new1], rule exI [of _ c1], rule exI [of _ errs],
        rule exI [of _ h2], rule exI [of _ new2], rule exI [of _ "code res"])
       (use s1 s2 nr h2 b out in \<open>auto simp: numeral_2_eq_2\<close>)
qed

lemma exec_plain_trace:
  assumes "curl_init_ok ev" and "upload req = None"
    and "webhdfs_req_exec ev req t error = (r, req', error', tr)"
  shows "\<exists>new c.
      tr = [Ev_perform ((exec_configure req t)\<lparr>performed := 1\<rparr>)] @ new @ [Ev_done 1 c]
    \<and> (\<forall>x \<in> set new. is_callback x \<and> \<not> is_read x)
    \<and> blob (buffer req') = received 1 new
    \<and> r = (if c \<noteq> 0 then 1 else 0)"
proof -
  let ?h = "exec_configure req t"
  let ?req3 = "req\<lparr>buffer := buffer_clear (buffer_clear (buffer req))\<rparr>"
  obtain res h2 q4 t2 where p: "curl_easy_perform ev ?h ?req3 [] = (res, h2, q4, t2)"
    by (metis prod_cases4)
  from assms p have out:
    "r = (if code res \<noteq> 0 then 1 else 0)" "buffer req' = buffer q4" "tr = t2"
    by (auto simp: webhdfs_req_exec_def Let_def)
  from curl_easy_perform_events [OF p] obtain new where
    s2: "h2 = ?h\<lparr>performed := Suc (performed ?h)\<rparr>"
        "t2 = [] @ [Ev_perform h2] @ new @ [Ev_done (performed h2) (code res)]"
        "blob (buffer q4) = blob (buffer ?req3) @ received (performed h2) new"
        "\<forall>x \<in> set new. is_callback x"
        "\<forall>k u n. Ev_read k u n \<in> set new \<longrightarrow> opt_readfunction h2 \<and> k = performed h2 \<and> u = opt_url h2"
    by blast
  have nr: "\<forall>x \<in> set new. is_callback x \<and> \<not> is_read x"
  proof
    fix x assume x: "x \<in> set new"
    with s2(1,5) have "\<not> is_read x" by (cases x) auto
    with s2(4) x show "is_callback x \<and> \<not> is_read x" by simp
  qed
  show ?thesis
    by (rule exI [of _ new], rule exI [of _ "code res"])
       (use s2 nr out in \<open>simp add: buffer_clear_def\<close>)
qed

lemma split_at_event:
  assumes "pre @ x # post = A @ B" and "x \<notin> set A"
  shows "\<exists>us. pre = A @ us \<and> x \<in> set B"
proof -
  from assms(1) consider us where "pre = A @ us" "us @ x # post = B"
    | us where "pre @ us = A" "x # post = us @ B"
    by (auto simp: append_eq_append_conv2)
  then show ?thesis
  proof cases
    case 1
    then show ?thesis by auto
  next
    case 2
    show ?thesis
    proof (cases us)
      case Nil
      with 2 show ?thesis by auto
    next
      case (Cons u us')
      with 2 have "x \<in> set A" by auto
      with assms(2) show ?thesis by simp
    qed
  qed
qed

section \<open>The scenarios, evaluated\<close>

lemmas exec_unfold =
  webhdfs_req_exec_def exec_configure_def exec_upload_step_def curl_easy_perform_def
  set_method_def set_body_mode_def curl_easy_init_def c_str_def
  webhdfs_req_write_def webhdfs_req_read_def buffer_append_def buffer_clear_def
  snprintf_def Let_def

lemmas scenario_unfold =
  scenario_env_def scenario_upload_engine_def scenario_get_engine_def scenario_put_def
  scenario_req_def scenario_producer_def scenario_ok_def scenario_strerror_def

lemma scenario_put_run:
  "webhdfs_req_exec (scenario_env scenario_upload_engine) scenario_put WEBHDFS_REQ_PUT None =
     (0, scenario_put\<lparr>buffer := \<lparr>blob = ''ok''\<rparr>, rcode := 201, upload_data := Some []\<rparr>, None,
      [Ev_perform scenario_h1, Ev_write 1 ''moved'' 5, Ev_done 1 0,
       Ev_redirect (Some ''http://dn1:50075/webhdfs/v1/f?op=CREATE''),
       Ev_perform scenario_h2,
       Ev_read 2 (Some ''http://dn1:50075/webhdfs/v1/f?op=CREATE'') 4,
       Ev_read 2 (Some ''http://dn1:50075/webhdfs/v1/f?op=CREATE'') 4,
       Ev_write 2 ''ok'' 2, Ev_done 2 0])"
  by (simp add: exec_unfold scenario_unfold scenario_h1_def scenario_h2_def)

lemma scenario_get_run:
  "webhdfs_req_exec (scenario_env scenario_get_engine) scenario_req WEBHDFS_REQ_GET None =
     (1, scenario_req\<lparr>buffer := \<lparr>blob = ''<html>''\<rparr>, rcode := 200\<rparr>,
      Some ''Failure when receiving data from the peer (url: <html>)'',
      [Ev_perform (scenario_h1\<lparr>opt_followlocation := True, opt_httpget := True,
                     opt_customrequest := None\<rparr>),
       Ev_write 1 ''<html>'' 6, Ev_done 1 56])"
  by (simp add: exec_unfold scenario_unfold scenario_h1_def)

section \<open>The claims\<close>

text \<open>
  Claim C1. In an upload (an upload function is bound), whenever the read callback is
  called, the first transfer has already started on the URL the caller built, with no
  read function registered, and has returned; the redirect URL has been read from the
  handle; and the call happens in the second transfer, whose target is that redirect URL.
  So the producer is never asked for bytes during the transfer to the namenode.
\<close>

theorem upload_read_only_after_redirect:
  assumes "upload req \<noteq> None"
    and "webhdfs_req_exec ev req t error = (r, req', error', tr)"
    and "tr = pre @ Ev_read k u n # post"
  shows "k = 2
    \<and> (\<exists>h. Ev_perform h \<in> set pre \<and> performed h = 1 \<and> \<not> opt_readfunction h
            \<and> opt_url h = Some (c_str (blob (buffer req))))
    \<and> (\<exists>c. Ev_done 1 c \<in> set pre)
    \<and> Ev_redirect u \<in> set pre
    \<and> (\<exists>h. Ev_perform h \<in> set pre \<and> performed h = 2 \<and> opt_url h = u)"
proof -
  have init: "curl_init_ok ev"
  proof (rule ccontr)
    assume "\<not> curl_init_ok ev"
    with assms(2) have "tr = []" by (simp add: webhdfs_req_exec_def)
    with assms(3) show False by simp
  qed
  from exec_upload_trace [OF init assms(1,2)] obtain new1 c1 errs h2 new2 c2 where
    tr: "tr = ([Ev_perform ((exec_configure req t)\<lparr>performed := 1\<rparr>)] @ new1 @ [Ev_done 1 c1] @ errs
             @ [Ev_redirect (opt_url h2)] @ [Ev_perform h2]) @ (new2 @ [Ev_done 2 c2])"
    and n1: "\<forall>x \<in> set new1. is_callback x \<and> \<not> is_read x"
    and er: "\<forall>x \<in> set errs. \<exists>s. x = Ev_stderr s"
    and h2: "performed h2 = 2"
    and n2: "\<forall>k u n. Ev_read k u n \<in> set new2 \<longrightarrow> k = 2 \<and> u = opt_url h2"
    by auto
  let ?A = "[Ev_perform ((exec_configure req t)\<lparr>performed := 1\<rparr>)] @ new1 @ [Ev_done 1 c1] @ errs
             @ [Ev_redirect (opt_url h2)] @ [Ev_perform h2]"
  have "Ev_read k u n \<notin> set ?A"
    using n1 er by auto
  with split_at_event [of pre "Ev_read k u n" post ?A "new2 @ [Ev_done 2 c2]"] tr assms(3)
  obtain us where pre: "pre = ?A @ us" and "Ev_read k u n \<in> set (new2 @ [Ev_done 2 c2])"
    by auto
  then have "Ev_read k u n \<in> set new2" by simp
  with n2 have ku: "k = 2" "u = opt_url h2" by auto
  have "Ev_perform ((exec_configure req t)\<lparr>performed := 1\<rparr>) \<in> set pre"
    using pre by simp
  then have p1: "\<exists>h. Ev_perform h \<in> set pre \<and> performed h = 1 \<and> \<not> opt_readfunction h
            \<and> opt_url h = Some (c_str (blob (buffer req)))"
    by (intro exI [of _ "(exec_configure req t)\<lparr>performed := 1\<rparr>"]) simp
  have p2: "\<exists>h. Ev_perform h \<in> set pre \<and> performed h = 2 \<and> opt_url h = u"
    using pre h2 ku by (intro exI [of _ h2]) simp
  have "Ev_done 1 c1 \<in> set pre" "Ev_redirect u \<in> set pre"
    using pre ku by simp_all
  with ku p1 p2 show ?thesis by blast
qed

theorem upload_read_only_after_redirect_witness:
  "upload scenario_put \<noteq> None
   \<and> events_of (webhdfs_req_exec (scenario_env scenario_upload_engine) scenario_put WEBHDFS_REQ_PUT None)
       = [Ev_perform scenario_h1, Ev_write 1 ''moved'' 5, Ev_done 1 0,
          Ev_redirect (Some ''http://dn1:50075/webhdfs/v1/f?op=CREATE''), Ev_perform scenario_h2]
         @ Ev_read 2 (Some ''http://dn1:50075/webhdfs/v1/f?op=CREATE'') 4
         # [Ev_read 2 (Some ''http://dn1:50075/webhdfs/v1/f?op=CREATE'') 4, Ev_write 2 ''ok'' 2, Ev_done 2 0]
   \<and> Ev_redirect (Some ''http://dn1:50075/webhdfs/v1/f?op=CREATE'')
       \<in> set [Ev_perform scenario_h1, Ev_write 1 ''moved'' 5, Ev_done 1 0,
               Ev_redirect (Some ''http://dn1:50075/webhdfs/v1/f?op=CREATE''), Ev_perform scenario_h2]"
proof -
  have u: "upload scenario_put \<noteq> None"
    by (simp add: scenario_put_def)
  let ?pre = "[Ev_perform scenario_h1, Ev_write 1 ''moved'' 5, Ev_done 1 0,
          Ev_redirect (Some ''http://dn1:50075/webhdfs/v1/f?op=CREATE''), Ev_perform scenario_h2]"
  let ?post = "[Ev_read 2 (Some ''http://dn1:50075/webhdfs/v1/f?op=CREATE'') 4, Ev_write 2 ''ok'' 2, Ev_done 2 0]"
  from upload_read_only_after_redirect [OF u scenario_put_run, of ?pre 2 "Some ''http://dn1:50075/webhdfs/v1/f?op=CREATE''" 4 "tl ?post"]
  have "Ev_redirect (Some ''http://dn1:50075/webhdfs/v1/f?op=CREATE'') \<in> set ?pre"
    by simp
  with u show ?thesis
    by (simp add: events_of_def scenario_put_run)
qed



text \<open>
  Claim C3. The error string of a failed terminal transfer is formatted from the
  engine's description and \<open>req->buffer.blob\<close>. The buffer was cleared before the
  transfer and holds the response bytes received so far: for a download of
  \<open>http://nn:50070/webhdfs/v1/f?op=CREATE\<close> that breaks off after \<open><html>\<close>, the
  error string names \<open><html>\<close> as the URL.
\<close>

theorem exec_error_string_lacks_url:
  "fst (snd (snd (webhdfs_req_exec (scenario_env scenario_get_engine) scenario_req WEBHDFS_REQ_GET None)))
     = Some ''Failure when receiving data from the peer (url: <html>)''
   \<and> opt_url (exec_configure scenario_req WEBHDFS_REQ_GET) = Some ''http://nn:50070/webhdfs/v1/f?op=CREATE''"
  by (simp add: scenario_get_run) (simp add: exec_configure_def scenario_req_def c_str_def set_method_def curl_easy_init_def)

text \<open>
  Claim C4. When the engine cannot create a handle, \<open>webhdfs_req_exec\<close> returns 1 and
  leaves \<open>*error\<close> as it found it: a caller that passed \<open>NULL\<close> gets no error string.
\<close>

theorem exec_init_failure_is_silent:
  "webhdfs_req_exec ((scenario_env scenario_get_engine)\<lparr>curl_init_ok := False\<rparr>)
     scenario_req WEBHDFS_REQ_GET None = (1, scenario_req, None, [])"
  by (simp add: webhdfs_req_exec_def)

text \<open>
  Claim C5. \<open>webhdfs_req_set_args\<close> drops the result of the append: when the append
  fails, it still returns 0.
\<close>

theorem set_args_hides_append_failure:
  "fst (buffer_append_vformat (\<lambda>n. False) (buffer scenario_req) ''&overwrite=%s'' [S ''true'']) \<noteq> 0
   \<and> webhdfs_req_set_args (\<lambda>n. False) scenario_req ''&overwrite=%s'' [S ''true''] = (0, scenario_req)"
  by (simp add: webhdfs_req_set_args_def buffer_append_vformat_def Let_def)

text \<open>
  Claim C6. Every transfer of a call runs on a handle whose follow-redirects option is
  set exactly when the request has no upload function.
\<close>

theorem follow_redirects_iff_no_upload:
  assumes "webhdfs_req_exec ev req t error = (r, req', error', tr)"
    and "Ev_perform h \<in> set tr"
  shows "opt_followlocation h = (upload req = None)"
proof -
  have init: "curl_init_ok ev"
  proof (rule ccontr)
    assume "\<not> curl_init_ok ev"
    with assms(1) have "tr = []" by (simp add: webhdfs_req_exec_def)
    with assms(2) show False by simp
  qed
  show ?thesis
  proof (cases "upload req = None")
    case True
    from exec_plain_trace [OF init True assms(1)] obtain new c where
      tr: "tr = [Ev_perform ((exec_configure req t)\<lparr>performed := 1\<rparr>)] @ new @ [Ev_done 1 c]"
      and n: "\<forall>x \<in> set new. is_callback x \<and> \<not> is_read x"
      by auto
    from n have "Ev_perform h \<notin> set new" by auto
    with assms(2) tr have "h = (exec_configure req t)\<lparr>performed := 1\<rparr>" by simp
    then show ?thesis by simp
  next
    case False
    from exec_upload_trace [OF init False assms(1)] obtain new1 c1 errs h2 new2 c2 where
      tr: "tr = [Ev_perform ((exec_configure req t)\<lparr>performed := 1\<rparr>)] @ new1 @ [Ev_done 1 c1] @ errs
             @ [Ev_redirect (opt_url h2)] @ [Ev_perform h2] @ new2 @ [Ev_done 2 c2]"
      and n1: "\<forall>x \<in> set new1. is_callback x \<and> \<not> is_read x"
      and er: "\<forall>x \<in> set errs. \<exists>s. x = Ev_stderr s"
      and f: "opt_followlocation h2 = False"
      and n2: "\<forall>x \<in> set new2. is_callback x"
      by auto
    have "Ev_perform h \<notin> set new1" "Ev_perform h \<notin> set new2" "Ev_perform h \<notin> set errs"
      using n1 n2 er by auto
    with assms(2) tr have "h = (exec_configure req t)\<lparr>performed := 1\<rparr> \<or> h = h2" by auto
    with f False show ?thesis by auto
  qed
qed

theorem follow_redirects_iff_no_upload_witness:
  "Ev_perform scenario_h2
     \<in> set (events_of (webhdfs_req_exec (scenario_env scenario_upload_engine) scenario_put WEBHDFS_REQ_PUT None))
   \<and> opt_followlocation scenario_h2 = (upload scenario_put = None)
   \<and> Ev_perform (scenario_h1\<lparr>opt_followlocation := True, opt_httpget := True, opt_customrequest := None\<rparr>)
     \<in> set (events_of (webhdfs_req_exec (scenario_env scenario_get_engine) scenario_req WEBHDFS_REQ_GET None))
   \<and> opt_followlocation (scenario_h1\<lparr>opt_followlocation := True, opt_httpget := True,
                                      opt_customrequest := None\<rparr>) = (upload scenario_req = None)"
proof -
  have a: "opt_followlocation scenario_h2 = (upload scenario_put = None)"
    by (rule follow_redirects_iff_no_upload [OF scenario_put_run]) simp
  have b: "opt_followlocation (scenario_h1\<lparr>opt_followlocation := True, opt_httpget := True,
                                      opt_customrequest := None\<rparr>) = (upload scenario_req = None)"
    by (rule follow_redirects_iff_no_upload [OF scenario_get_run]) simp
  from a b show ?thesis
    by (simp add: events_of_def scenario_put_run scenario_get_run)
qed

text \<open>
  Claim C7. With an empty buffer \<open>webhdfs_req_json_response\<close> returns no document and
  prints nothing. Otherwise the parser reads the buffer as a C string, that is, up to its
  first NUL byte. When the parser rejects that text, the function returns no document and
  prints one line: \<open>response-parse: \<close>, the parser's error text, and a newline. When the
  parser accepts it, the function returns the document and prints nothing. The function is
  total: a failed parse ends in a value, not in an error.

  The claim as stated, for every buffer that is not JSON, fails where valid JSON is
  followed by a NUL byte and more bytes: the bytes after the NUL are not looked at, and a
  document is returned without a message.
\<close>

theorem json_response_reports_parser_error:
  "(buffer_size (buffer req) = 0 \<longrightarrow> webhdfs_req_json_response parse req = (None, []))
   \<and> (buffer_size (buffer req) \<noteq> 0 \<and> parse (c_str (blob (buffer req))) 1024 = (None, err) \<longrightarrow>
        webhdfs_req_json_response parse req
          = (None, [''response-parse: '' @ err @ [CHR 0x0A]]))
   \<and> (buffer_size (buffer req) \<noteq> 0 \<and> parse (c_str (blob (buffer req))) 1024 = (Some v, err) \<longrightarrow>
        webhdfs_req_json_response parse req = (Some v, []))"
  unfolding webhdfs_req_json_response_def vformat_response_parse by (simp add: Let_def)

theorem json_response_reports_parser_error_witness:
  "buffer_size (buffer (scenario_req\<lparr>buffer := \<lparr>blob = []\<rparr>\<rparr>)) = 0
   \<and> webhdfs_req_json_response scenario_parse (scenario_req\<lparr>buffer := \<lparr>blob = []\<rparr>\<rparr>) = (None, [])
   \<and> buffer_size (buffer (scenario_req\<lparr>buffer := \<lparr>blob = ''<html>''\<rparr>\<rparr>)) \<noteq> 0
   \<and> scenario_parse (c_str (blob (buffer (scenario_req\<lparr>buffer := \<lparr>blob = ''<html>''\<rparr>\<rparr>)))) 1024
       = (None, ''parse error: invalid token'')
   \<and> webhdfs_req_json_response scenario_parse (scenario_req\<lparr>buffer := \<lparr>blob = ''<html>''\<rparr>\<rparr>)
       = (None, [''response-parse: parse error: invalid token'' @ [CHR 0x0A]])
   \<and> buffer_size (buffer (scenario_req\<lparr>buffer := \<lparr>blob = ''{}''\<rparr>\<rparr>)) \<noteq> 0
   \<and> scenario_parse (c_str (blob (buffer (scenario_req\<lparr>buffer := \<lparr>blob = ''{}''\<rparr>\<rparr>)))) 1024
       = (Some (), [])
   \<and> webhdfs_req_json_response scenario_parse (scenario_req\<lparr>buffer := \<lparr>blob = ''{}''\<rparr>\<rparr>)
       = (Some (), [])"
proof -
  let ?e = "scenario_req\<lparr>buffer := \<lparr>blob = []\<rparr>\<rparr>"
  let ?m = "scenario_req\<lparr>buffer := \<lparr>blob = ''<html>''\<rparr>\<rparr>"
  let ?j = "scenario_req\<lparr>buffer := \<lparr>blob = ''{}''\<rparr>\<rparr>"
  have a: "buffer_size (buffer ?e) = 0"
    by (simp add: buffer_size_def)
  have b: "buffer_size (buffer ?m) \<noteq> 0"
    by (simp add: buffer_size_def)
  have c: "scenario_parse (c_str (blob (buffer ?m))) 1024 = (None, ''parse error: invalid token'')"
    by (simp add: scenario_parse_def c_str_def)
  have b': "buffer_size (buffer ?j) \<noteq> 0"
    by (simp add: buffer_size_def)
  have c': "scenario_parse (c_str (blob (buffer ?j))) 1024 = (Some (), [])"
    by (simp add: scenario_parse_def c_str_def)
  from json_response_reports_parser_error [of ?e scenario_parse] a
  have d: "webhdfs_req_json_response scenario_parse ?e = (None, [])"
    by blast
  from json_response_reports_parser_error
         [of ?m scenario_parse "''parse error: invalid token''"] b c
  have e: "webhdfs_req_json_response scenario_parse ?m
             = (None, [''response-parse: parse error: invalid token'' @ [CHR 0x0A]])"
    by simp
  from json_response_reports_parser_error [of ?j scenario_parse "[]" "()"] b' c'
  have f: "webhdfs_req_json_response scenario_parse ?j = (Some (), [])"
    by blast
  from a b c b' c' d e f show ?thesis by blast
qed

theorem json_response_malformed_buffer_counterexample:
  "buffer_size (buffer scenario_nul_req) \<noteq> 0
   \<and> fst (scenario_parse (blob (buffer scenario_nul_req)) 1024) = None
   \<and> webhdfs_req_json_response scenario_parse scenario_nul_req = (Some (), [])"
  by (simp add: scenario_nul_req_def scenario_req_def scenario_parse_def buffer_size_def
        webhdfs_req_json_response_def c_str_def)

text \<open>
  Claim C8. The write callback, given \<open>n = size * nitems\<close> bytes, returns \<open>n\<close> and
  leaves the bytes at the end of the buffer when the append succeeds; when the append
  fails it returns 0 and leaves the request as it was.
\<close>

theorem write_adapter_result:
  "(fst (buffer_append al (buffer req) ptr (sz * nitems)) = 0 \<longrightarrow>
      webhdfs_req_write al ptr sz nitems req
        = (sz * nitems,
           req\<lparr>buffer := (buffer req)\<lparr>blob := blob (buffer req) @ take (unat (sz * nitems)) ptr\<rparr>\<rparr>))
   \<and> (fst (buffer_append al (buffer req) ptr (sz * nitems)) \<noteq> 0 \<longrightarrow>
      webhdfs_req_write al ptr sz nitems req = (0, req))"
  by (simp add: webhdfs_req_write_def buffer_append_def Let_def)

theorem write_adapter_result_witness:
  "fst (buffer_append (\<lambda>n. True) (buffer scenario_req) ''data'' (1 * 4)) = 0
   \<and> fst (webhdfs_req_write (\<lambda>n. True) ''data'' 1 4 scenario_req) = 4
   \<and> fst (buffer_append (\<lambda>n. False) (buffer scenario_req) ''data'' (1 * 4)) \<noteq> 0
   \<and> webhdfs_req_write (\<lambda>n. False) ''data'' 1 4 scenario_req = (0, scenario_req)"
proof -
  have a: "fst (buffer_append (\<lambda>n. True) (buffer scenario_req) ''data'' (1 * 4)) = 0"
    by (simp add: buffer_append_def)
  have b: "fst (buffer_append (\<lambda>n. False) (buffer scenario_req) ''data'' (1 * 4)) \<noteq> 0"
    by (simp add: buffer_append_def)
  from write_adapter_result [of "\<lambda>n. True" scenario_req "''data''" 1 4] a
  have c: "fst (webhdfs_req_write (\<lambda>n. True) ''data'' 1 4 scenario_req) = 4"
    by simp
  from write_adapter_result [of "\<lambda>n. False" scenario_req "''data''" 1 4] b
  have d: "webhdfs_req_write (\<lambda>n. False) ''data'' 1 4 scenario_req = (0, scenario_req)"
    by simp
  from a b c d show ?thesis by blast
qed

text \<open>
  Claim C9. When the engine cannot create a handle, \<open>webhdfs_req_exec\<close> returns 1 at
  once: the request and \<open>*error\<close> are unchanged and the call has no events, so no
  transfer runs and neither callback is called.
\<close>

theorem init_failure_returns_at_once:
  "\<not> curl_init_ok ev \<Longrightarrow> webhdfs_req_exec ev req t error = (1, req, error, [])"
  by (simp add: webhdfs_req_exec_def)

theorem init_failure_returns_at_once_witness:
  "\<not> curl_init_ok ((scenario_env scenario_upload_engine)\<lparr>curl_init_ok := False\<rparr>)
   \<and> webhdfs_req_exec ((scenario_env scenario_upload_engine)\<lparr>curl_init_ok := False\<rparr>)
        scenario_put WEBHDFS_REQ_PUT None = (1, scenario_put, None, [])"
  using init_failure_returns_at_once
          [of "(scenario_env scenario_upload_engine)\<lparr>curl_init_ok := False\<rparr>"
              scenario_put WEBHDFS_REQ_PUT None]
  by simp

text \<open>
  Claim C10. After an upload the buffer holds exactly the bytes the write callback
  accepted during the second transfer, which is the last event of the call; what the
  first transfer delivered is not in it.
\<close>

theorem upload_buffer_holds_terminal_response:
  assumes "curl_init_ok ev" and "upload req \<noteq> None"
    and "webhdfs_req_exec ev req t error = (r, req', error', tr)"
  shows "blob (buffer req') = received 2 tr \<and> (\<exists>c. last tr = Ev_done 2 c)"
proof -
  from exec_upload_trace [OF assms] obtain new1 c1 errs h2 new2 c2 where
    tr: "tr = [Ev_perform ((exec_configure req t)\<lparr>performed := 1\<rparr>)] @ new1 @ [Ev_done 1 c1] @ errs
             @ [Ev_redirect (opt_url h2)] @ [Ev_perform h2] @ new2 @ [Ev_done 2 c2]"
    and w1: "\<forall>k bs r. Ev_write k bs r \<in> set new1 \<longrightarrow> k = 1"
    and er: "\<forall>x \<in> set errs. \<exists>s. x = Ev_stderr s"
    and b: "blob (buffer req') = received 2 new2"
    by auto
  have "received 2 new1 = []"
    using w1 by (rule received_other) simp
  moreover have "received 2 errs = []"
    using er by (intro received_no_write) auto
  ultimately have "received 2 tr = received 2 new2"
    unfolding tr by (simp add: received_append) (simp add: received_def)
  moreover have "last tr = Ev_done 2 c2"
    unfolding tr by simp
  ultimately show ?thesis using b by simp
qed

theorem upload_buffer_holds_terminal_response_witness:
  "curl_init_ok (scenario_env scenario_upload_engine) \<and> upload scenario_put \<noteq> None
   \<and> blob (buffer (fst (snd (webhdfs_req_exec (scenario_env scenario_upload_engine) scenario_put
                              WEBHDFS_REQ_PUT None)))) = ''ok''
   \<and> received 2 (events_of (webhdfs_req_exec (scenario_env scenario_upload_engine) scenario_put
                              WEBHDFS_REQ_PUT None)) = ''ok''"
proof -
  have i: "curl_init_ok (scenario_env scenario_upload_engine)"
    by (simp add: scenario_env_def)
  have u: "upload scenario_put \<noteq> None"
    by (simp add: scenario_put_def)
  from upload_buffer_holds_terminal_response [OF i u scenario_put_run] i u show ?thesis
    by (simp add: scenario_put_run events_of_def)
qed

end
